theory Spec2Isabelle
  imports Complex_Main "HOL-Library.Multiset"
begin

section \<open>The Python values the program works on\<close>

text \<open>
  \<^verbatim>\<open>contact-control.py\<close> is a terminal front end to the ground-station API of boto3.
  Its own logic is arithmetic on \<^verbatim>\<open>datetime\<close> and \<^verbatim>\<open>timedelta\<close> values, the text rows
  it shows in its check-box prompts, and the re-parsing of the rows the operator ticks.
  This section models the library values those computations rest on.

  \<^item> An aware \<^verbatim>\<open>datetime\<close> is the instant it denotes: microseconds since
    1970-01-01 00:00:00 UTC. Every datetime the program prints went through
    \<^verbatim>\<open>astimezone(tz=utc)\<close> or was parsed from a text ending in \<^verbatim>\<open>+00:00\<close>, so the
    zone is always UTC. The range of the type (years 1 to 9999) is not modelled.
  \<^item> A \<^verbatim>\<open>timedelta\<close> is its total number of microseconds; \<^verbatim>\<open>.days\<close>,
    \<^verbatim>\<open>.seconds\<close> and \<^verbatim>\<open>.microseconds\<close> are the normalised fields CPython stores
    (\<open>0 \<le> seconds < 86400\<close>, \<open>0 \<le> microseconds < 1000000\<close>, the sign in the days).
  \<^item> A \<^verbatim>\<open>str\<close> is a \<^typ>\<open>string\<close>; every text the program builds is ASCII.
\<close>

type_synonym datetime = int
type_synonym timedelta = int

datatype error = ValueError | IndexError | UnboundLocalError | ValidationError | ClientError

definition usec_per_second :: int where
  "usec_per_second = 1000000"

definition usec_per_day :: int where
  "usec_per_day = 86400000000"

definition td_days :: "timedelta \<Rightarrow> int" where
  "td_days d = d div usec_per_day"

definition td_seconds :: "timedelta \<Rightarrow> int" where
  "td_seconds d = (d mod usec_per_day) div usec_per_second"

definition td_microseconds :: "timedelta \<Rightarrow> int" where
  "td_microseconds d = d mod usec_per_second"

definition timedelta_of_seconds :: "int \<Rightarrow> timedelta" where
  "timedelta_of_seconds s = s * usec_per_second"

definition timedelta_of_minutes :: "int \<Rightarrow> timedelta" where
  "timedelta_of_minutes m = m * 60 * usec_per_second"

text \<open>
  \<^verbatim>\<open>timedelta / int\<close>: CPython divides the microsecond count and rounds the quotient
  to the nearest integer, ties to even. The program only divides by 2.
\<close>

definition divide_and_round :: "int \<Rightarrow> int \<Rightarrow> int" where
  "divide_and_round a b =
     (let q = a div b; r = 2 * (a mod b)
      in if r > b \<or> (r = b \<and> q mod 2 = 1) then q + 1 else q)"

text \<open>\<^verbatim>\<open>int(x / 60)\<close> on an integer: the quotient truncated towards zero.\<close>

definition int_div60 :: "int \<Rightarrow> int" where
  "int_div60 x = (if 0 \<le> x then x div 60 else - ((- x) div 60))"

subsection \<open>The proleptic Gregorian calendar\<close>

definition days_from_civil :: "int \<Rightarrow> int \<Rightarrow> int \<Rightarrow> int" where
  "days_from_civil y m d =
     (let y' = (if m \<le> 2 then y - 1 else y);
          era = y' div 400;
          yoe = y' - era * 400;
          doy = (153 * (if m > 2 then m - 3 else m + 9) + 2) div 5 + d - 1;
          doe = yoe * 365 + yoe div 4 - yoe div 100 + doy
      in era * 146097 + doe - 719468)"

definition civil_from_days :: "int \<Rightarrow> int \<times> int \<times> int" where
  "civil_from_days z =
     (let z' = z + 719468;
          era = z' div 146097;
          doe = z' - era * 146097;
          yoe = (doe - doe div 1460 + doe div 36524 - doe div 146096) div 365;
          doy = doe - (365 * yoe + yoe div 4 - yoe div 100);
          mp = (5 * doy + 2) div 153;
          d = doy - (153 * mp + 2) div 5 + 1;
          m = (if mp < 10 then mp + 3 else mp - 9);
          y = yoe + era * 400
      in (if m \<le> 2 then y + 1 else y, m, d))"

definition is_leap :: "int \<Rightarrow> bool" where
  "is_leap y = (y mod 4 = 0 \<and> (y mod 400 = 0 \<or> y mod 100 \<noteq> 0))"

definition days_in_month :: "int \<Rightarrow> int \<Rightarrow> int" where
  "days_in_month y m =
     (if m = 2 then (if is_leap y then 29 else 28)
      else if m = 4 \<or> m = 6 \<or> m = 9 \<or> m = 11 then 30 else 31)"

text \<open>\<^verbatim>\<open>datetime(y, m, d, hh, mm, ss, tzinfo=utc)\<close>, for writing instants readably.\<close>

definition utc :: "int \<Rightarrow> int \<Rightarrow> int \<Rightarrow> int \<Rightarrow> int \<Rightarrow> int \<Rightarrow> datetime" where
  "utc y m d hh mm ss =
     days_from_civil y m d * usec_per_day + ((hh * 60 + mm) * 60 + ss) * usec_per_second"

subsection \<open>Text\<close>

definition digit_char :: "nat \<Rightarrow> char" where
  "digit_char n = char_of (48 + n)"

definition is_digit :: "char \<Rightarrow> bool" where
  "is_digit c = (48 \<le> (of_char c :: nat) \<and> (of_char c :: nat) \<le> 57)"

definition digit_val :: "char \<Rightarrow> int" where
  "digit_val c = int (of_char c) - 48"

function str_nat :: "nat \<Rightarrow> string" where
  "str_nat n = (if n < 10 then [digit_char n] else str_nat (n div 10) @ [digit_char (n mod 10)])"
  by pat_completeness auto
termination
  by (relation "measure id") auto

text \<open>\<^verbatim>\<open>"%d" % n\<close> and \<^verbatim>\<open>"%0wd" % n\<close> (for \<open>n \<ge> 0\<close>).\<close>

definition str_int :: "int \<Rightarrow> string" where
  "str_int i = (if i < 0 then CHR ''-'' # str_nat (nat (- i)) else str_nat (nat i))"

definition zfill :: "nat \<Rightarrow> int \<Rightarrow> string" where
  "zfill w i = (let s = str_int i in replicate (w - length s) CHR ''0'' @ s)"

definition ljust :: "nat \<Rightarrow> string \<Rightarrow> string" where
  "ljust w s = s @ replicate (w - length s) CHR '' ''"

text \<open>\<^verbatim>\<open>str.strip()\<close>: the ASCII white space is removed at both ends.\<close>

definition is_space :: "char \<Rightarrow> bool" where
  "is_space c = (let n = (of_char c :: nat) in (9 \<le> n \<and> n \<le> 13) \<or> (28 \<le> n \<and> n \<le> 32))"

definition strip :: "string \<Rightarrow> string" where
  "strip s = rev (dropWhile is_space (rev (dropWhile is_space s)))"

text \<open>
  \<^verbatim>\<open>s.split(sep)\<close> for a non-empty separator: the pieces between the occurrences of
  \<open>sep\<close>, found from the left without overlap. \<open>skip\<close> counts the characters of a
  separator still to pass; \<open>acc\<close> is the current piece, reversed. All separators of the
  program are literals (\<^verbatim>\<open>"--"\<close>, \<^verbatim>\<open>" "\<close>, \<^verbatim>\<open>"0:"\<close>, \<^verbatim>\<open>"/"\<close>).
\<close>

fun split_from :: "string \<Rightarrow> nat \<Rightarrow> string \<Rightarrow> string \<Rightarrow> string list" where
  "split_from sep skip acc [] = [rev acc]"
| "split_from sep (Suc k) acc (c # cs) = split_from sep k acc cs"
| "split_from sep 0 acc (c # cs) =
     (if sep \<noteq> [] \<and> take (length sep) (c # cs) = sep
      then rev acc # split_from sep (length sep - 1) [] cs
      else split_from sep 0 (c # acc) cs)"

definition split :: "string \<Rightarrow> string \<Rightarrow> string list" where
  "split sep s = split_from sep 0 [] s"

text \<open>\<^verbatim>\<open>xs[i]\<close> for \<open>i \<ge> 0\<close>: out of range raises \<^verbatim>\<open>IndexError\<close>.\<close>

definition item :: "'a list \<Rightarrow> nat \<Rightarrow> error + 'a" where
  "item xs i = (if i < length xs then Inr (xs ! i) else Inl IndexError)"

subsection \<open>Printing dates, times and durations\<close>

text \<open>\<^verbatim>\<open>str(d)\<close> of a date: \<^verbatim>\<open>YYYY-MM-DD\<close>.\<close>

definition str_date :: "int \<Rightarrow> string" where
  "str_date day =
     (case civil_from_days day of
        (y, m, d) \<Rightarrow> zfill 4 y @ ''-'' @ zfill 2 m @ ''-'' @ zfill 2 d)"

definition date_of :: "datetime \<Rightarrow> int" where
  "date_of t = t div usec_per_day"

text \<open>
  \<^verbatim>\<open>str(t)\<close> of an aware datetime in UTC:
  \<^verbatim>\<open>YYYY-MM-DD HH:MM:SS+00:00\<close>, with \<^verbatim>\<open>.ffffff\<close> after the seconds when the
  microsecond field is not zero.
\<close>

definition str_time_of_day :: "int \<Rightarrow> string" where
  "str_time_of_day u =
     (let s = u div usec_per_second; f = u mod usec_per_second
      in zfill 2 (s div 3600) @ '':'' @ zfill 2 (s div 60 mod 60) @ '':'' @ zfill 2 (s mod 60)
         @ (if f = 0 then [] else ''.'' @ zfill 6 f) @ ''+00:00'')"

definition str_datetime :: "datetime \<Rightarrow> string" where
  "str_datetime t = str_date (date_of t) @ '' '' @ str_time_of_day (t mod usec_per_day)"

text \<open>
  \<^verbatim>\<open>str(d)\<close> of a timedelta: \<^verbatim>\<open>H:MM:SS\<close>, preceded by \<^verbatim>\<open>N day, \<close> or
  \<^verbatim>\<open>N days, \<close> when the days field is not zero and followed by \<^verbatim>\<open>.ffffff\<close> when the
  microsecond field is not zero.
\<close>

definition str_timedelta :: "timedelta \<Rightarrow> string" where
  "str_timedelta d =
     (let ss = td_seconds d; dd = td_days d; f = td_microseconds d
      in (if dd = 0 then []
          else str_int dd @ '' day'' @ (if abs dd = 1 then [] else ''s'') @ '', '')
         @ str_int (ss div 3600) @ '':'' @ zfill 2 (ss div 60 mod 60) @ '':'' @ zfill 2 (ss mod 60)
         @ (if f = 0 then [] else ''.'' @ zfill 6 f))"

subsection \<open>Parsing: \<^verbatim>\<open>datetime.strptime\<close>\<close>

text \<open>
  The program calls \<^verbatim>\<open>strptime\<close> with two formats, \<^verbatim>\<open>%H:%M:%S%z\<close> and
  \<^verbatim>\<open>%Y-%m-%d %H:%M:%S%z\<close>, always on text it has printed itself. The model accepts
  the spelling \<^verbatim>\<open>str\<close> prints for a UTC datetime without a fraction (two-digit fields,
  the offset \<^verbatim>\<open>+00:00\<close>) and raises \<^verbatim>\<open>ValueError\<close> on everything else; in particular
  a text with a fraction of a second does not match \<^verbatim>\<open>%S%z\<close>. CPython also accepts
  one-digit fields and other offsets, which the program never prints. A time without a
  date is on 1900-01-01.
\<close>

definition all_digits :: "string \<Rightarrow> bool" where
  "all_digits s = list_all is_digit s"

definition number :: "string \<Rightarrow> int" where
  "number s = foldl (\<lambda>a c. 10 * a + digit_val c) 0 s"

definition parse_time_of_day :: "string \<Rightarrow> error + int" where
  "parse_time_of_day s =
     (if length s = 14 \<and> all_digits (take 2 s) \<and> take 1 (drop 2 s) = '':''
         \<and> all_digits (take 2 (drop 3 s)) \<and> take 1 (drop 5 s) = '':''
         \<and> all_digits (take 2 (drop 6 s)) \<and> drop 8 s = ''+00:00''
         \<and> number (take 2 s) < 24 \<and> number (take 2 (drop 3 s)) < 60
         \<and> number (take 2 (drop 6 s)) < 60
      then Inr (((number (take 2 s) * 60 + number (take 2 (drop 3 s))) * 60
                  + number (take 2 (drop 6 s))) * usec_per_second)
      else Inl ValueError)"

definition parse_date :: "string \<Rightarrow> error + int" where
  "parse_date s =
     (if length s = 10 \<and> all_digits (take 4 s) \<and> take 1 (drop 4 s) = ''-''
         \<and> all_digits (take 2 (drop 5 s)) \<and> take 1 (drop 7 s) = ''-''
         \<and> all_digits (drop 8 s)
         \<and> 1 \<le> number (take 4 s)
         \<and> 1 \<le> number (take 2 (drop 5 s)) \<and> number (take 2 (drop 5 s)) \<le> 12
         \<and> 1 \<le> number (drop 8 s)
         \<and> number (drop 8 s) \<le> days_in_month (number (take 4 s)) (number (take 2 (drop 5 s)))
      then Inr (days_from_civil (number (take 4 s)) (number (take 2 (drop 5 s))) (number (drop 8 s)))
      else Inl ValueError)"

definition strptime_HMSz :: "string \<Rightarrow> error + datetime" where
  "strptime_HMSz s =
     (case parse_time_of_day s of
        Inl e \<Rightarrow> Inl e
      | Inr u \<Rightarrow> Inr (days_from_civil 1900 1 1 * usec_per_day + u))"

definition strptime_YmdHMSz :: "string \<Rightarrow> error + datetime" where
  "strptime_YmdHMSz s =
     (if take 1 (drop 10 s) = '' '' then
        (case parse_date (take 10 s) of
           Inl e \<Rightarrow> Inl e
         | Inr day \<Rightarrow>
             (case parse_time_of_day (drop 11 s) of
                Inl e \<Rightarrow> Inl e
              | Inr u \<Rightarrow> Inr (day * usec_per_day + u)))
      else Inl ValueError)"

text \<open>Exceptions propagate: the first \<open>Inl\<close> ends the computation.\<close>

definition and_then :: "error + 'a \<Rightarrow> ('a \<Rightarrow> error + 'b) \<Rightarrow> error + 'b" where
  "and_then r f = (case r of Inl e \<Rightarrow> Inl e | Inr x \<Rightarrow> f x)"

text \<open>\<^verbatim>\<open>str(t).split(" ")[1]\<close>: the time of day of a printed datetime.\<close>

definition time_text :: "datetime \<Rightarrow> error + string" where
  "time_text t = item (split '' '' (str_datetime t)) 1"

section \<open>Records of the ground-station API\<close>

text \<open>
  One element of \<^verbatim>\<open>contactList\<close> in the answer of \<^verbatim>\<open>list_contacts\<close>: a pass when
  it was asked for with the status \<^verbatim>\<open>AVAILABLE\<close>, a contact otherwise. Only the keys the
  program reads are kept; \<open>maximumElevation\<close> is \<^verbatim>\<open>["maximumElevation"]["value"]\<close>, a
  float that is only compared and printed, taken as the real number it denotes.
  Python's \<^verbatim>\<open>str\<close> of a float (the shortest decimal that reads back) is library code
  that the functions printing an elevation take as the parameter \<open>str_float\<close>.
\<close>

record contact =
  contactId :: string
  contactStatus :: string
  startTime :: datetime
  endTime :: datetime
  groundStation :: string
  region :: string
  maximumElevation :: real
  missionProfileArn :: string

text \<open>
  The client \<^verbatim>\<open>gs_client\<close>, reduced to the calls of the operations modelled here. A
  call answers or raises (\<^verbatim>\<open>ClientError\<close>); the answer is a function of the request.
  \<open>list_contacts\<close> reads \<^verbatim>\<open>groundStation\<close> and \<^verbatim>\<open>statusList\<close>; the other arguments
  of the request (time window, mission profile, satellite, \<^verbatim>\<open>maxResults=100\<close>) are the
  same for every call of one menu operation. \<open>get_mission_profile\<close> answers the
  profile's name, \<open>cancel_contact_call\<close> the identifier of the cancelled contact.

  botocore hands every timestamp of an answer over as an aware datetime in the local
  time zone of the machine (\<^verbatim>\<open>tzlocal()\<close>). The instant is what the record's
  \<open>startTime\<close> and \<open>endTime\<close> hold; of the zone the model keeps what a comparison with
  \<^verbatim>\<open>==\<close> reads from it: \<open>repeated_hour\<close> holds for the instants whose local time is in
  the hour that the clock runs through twice at the end of daylight saving time, where
  \<^verbatim>\<open>utcoffset()\<close> depends on \<^verbatim>\<open>fold\<close>.
\<close>

record gs_client =
  list_contacts :: "string \<Rightarrow> string list \<Rightarrow> error + contact list"
  get_mission_profile :: "string \<Rightarrow> error + string"
  cancel_contact_call :: "string \<Rightarrow> error + string"
  repeated_hour :: "datetime \<Rightarrow> bool"

text \<open>
  \<^verbatim>\<open>contact["startTime"] == target_contact_start_datetime\<close> (lines 776 and 836): the
  left side is a datetime of the API in the local zone, the right side was parsed from a
  row and is in UTC. Python compares two aware datetimes of different zones by their
  instants, except that a datetime whose UTC offset depends on \<^verbatim>\<open>fold\<close> is equal to no
  datetime of another zone. (Ordering with \<^verbatim>\<open><\<close>, as in the sort of \<^verbatim>\<open>get_contacts\<close>,
  and subtraction have no such exception: they go by the instants.)
\<close>

definition datetime_eq :: "gs_client \<Rightarrow> datetime \<Rightarrow> datetime \<Rightarrow> bool" where
  "datetime_eq gs api_time parsed_time =
     (api_time = parsed_time \<and> \<not> repeated_hour gs api_time)"

section \<open>get_contacts: the merge of the stations' lists (lines 358-378)\<close>

text \<open>
  \<^verbatim>\<open>
  all_passes = []
  for ground_station in selected_groundstations:
      pass_list = gs_client.list_contacts(..., groundStation=ground_station,
                                          ..., statusList=contact_type)
      all_passes.append(pass_list["contactList"])
  flat_passes = [item for sublist in all_passes for item in sublist]
  flat_passes.sort(key=lambda item: item["startTime"], reverse=False)
  \<close>
  \<^verbatim>\<open>list.sort\<close> is stable, and so is \<^const>\<open>sort_key\<close>: both give the one stable ordering.
  The prompts that come before (satellite, mission profile, stations, window) only
  choose the arguments of the calls.
\<close>

fun fetch_all :: "gs_client \<Rightarrow> string list \<Rightarrow> string list \<Rightarrow> contact list list
    \<Rightarrow> error + contact list list" where
  "fetch_all gs contact_type [] all_passes = Inr all_passes"
| "fetch_all gs contact_type (ground_station # rest) all_passes =
     (case list_contacts gs ground_station contact_type of
        Inl e \<Rightarrow> Inl e
      | Inr pass_list \<Rightarrow> fetch_all gs contact_type rest (all_passes @ [pass_list]))"

definition flat_sorted :: "contact list list \<Rightarrow> contact list" where
  "flat_sorted all_passes = sort_key startTime (concat all_passes)"

definition get_contacts :: "gs_client \<Rightarrow> string list \<Rightarrow> string list \<Rightarrow> error + contact list" where
  "get_contacts gs contact_type selected_groundstations =
     and_then (fetch_all gs contact_type selected_groundstations [])
       (\<lambda>all_passes. Inr (flat_sorted all_passes))"

section \<open>The validators of the prompts (lines 381-398)\<close>

text \<open>
  \<^verbatim>\<open>regex.match("^[1-8][0-9]?$|^90$", document.text)\<close>. \<^verbatim>\<open>match\<close> starts at the
  first character; \<^verbatim>\<open>$\<close> holds at the end of the text and also just before a line feed
  that is its last character.
\<close>

definition at_end :: "(string \<Rightarrow> bool) \<Rightarrow> string \<Rightarrow> bool" where
  "at_end body s = (body s \<or> (s \<noteq> [] \<and> last s = CHR 0x0A \<and> body (butlast s)))"

definition in_class :: "char \<Rightarrow> char \<Rightarrow> char \<Rightarrow> bool" where
  "in_class lo hi c = ((of_char lo :: nat) \<le> of_char c \<and> (of_char c :: nat) \<le> of_char hi)"

fun elevation_body :: "string \<Rightarrow> bool" where
  "elevation_body [a] = in_class CHR ''1'' CHR ''8'' a"
| "elevation_body [a, b] =
     ((in_class CHR ''1'' CHR ''8'' a \<and> in_class CHR ''0'' CHR ''9'' b)
      \<or> (a = CHR ''9'' \<and> b = CHR ''0''))"
| "elevation_body t = False"

definition ElevationValidator :: "string \<Rightarrow> error + unit" where
  "ElevationValidator text = (if at_end elevation_body text then Inr () else Inl ValidationError)"

text \<open>\<^verbatim>\<open>regex.match("^[1-9]$|^0[1-9]$|^1[0-9]$|^20$", document.text)\<close>\<close>

fun duration_body :: "string \<Rightarrow> bool" where
  "duration_body [a] = in_class CHR ''1'' CHR ''9'' a"
| "duration_body [a, b] =
     ((a = CHR ''0'' \<and> in_class CHR ''1'' CHR ''9'' b)
      \<or> (a = CHR ''1'' \<and> in_class CHR ''0'' CHR ''9'' b)
      \<or> (a = CHR ''2'' \<and> b = CHR ''0''))"
| "duration_body t = False"

definition DurationValidator :: "string \<Rightarrow> error + unit" where
  "DurationValidator text = (if at_end duration_body text then Inr () else Inl ValidationError)"

section \<open>schedule_contact: the window filter and its report (lines 493-659)\<close>

text \<open>
  The answers of the prompts are the arguments: \<open>minimum_elevation\<close> is
  \<^verbatim>\<open>float(minimum_elevation_answer["minimum_elevation"])\<close>, \<open>whole_duration_answer\<close> the
  answer to "use the whole pass?", and \<open>contact_minutes\<close> the number typed at the
  duration prompt. That prompt is shown only when the whole pass is declined, so
  \<^verbatim>\<open>contact_seconds = int(60 * float(...))\<close> is bound on that path alone: the variable
  is \<open>None\<close> while unbound, and reading it then raises \<^verbatim>\<open>UnboundLocalError\<close>.

  \<^verbatim>\<open>
  for _pass in pass_list:
      if _pass["maximumElevation"]["value"] >= minimum_elevation:
          pass_duration = _pass["endTime"] - _pass["startTime"]
          pass_duration_list.append(pass_duration)
          if whole_duration_answer:
              suitable_passes.append(_pass)
          elif (not whole_duration_answer) and pass_duration.seconds > contact_seconds:
              suitable_passes.append(_pass)
  \<close>
\<close>

fun window_filter :: "real \<Rightarrow> bool \<Rightarrow> int option \<Rightarrow> contact list
    \<Rightarrow> contact list \<times> timedelta list \<Rightarrow> error + contact list \<times> timedelta list" where
  "window_filter minimum_elevation whole_duration_answer contact_seconds []
     (suitable_passes, pass_duration_list) = Inr (suitable_passes, pass_duration_list)"
| "window_filter minimum_elevation whole_duration_answer contact_seconds (pass # pass_list)
     (suitable_passes, pass_duration_list) =
     (if maximumElevation pass \<ge> minimum_elevation then
        (let pass_duration = endTime pass - startTime pass;
             pass_duration_list' = pass_duration_list @ [pass_duration]
         in if whole_duration_answer then
              window_filter minimum_elevation whole_duration_answer contact_seconds pass_list
                (suitable_passes @ [pass], pass_duration_list')
            else
              (case contact_seconds of
                 None \<Rightarrow> Inl UnboundLocalError
               | Some cs \<Rightarrow>
                   if td_seconds pass_duration > cs then
                     window_filter minimum_elevation whole_duration_answer contact_seconds
                       pass_list (suitable_passes @ [pass], pass_duration_list')
                   else
                     window_filter minimum_elevation whole_duration_answer contact_seconds
                       pass_list (suitable_passes, pass_duration_list')))
      else
        window_filter minimum_elevation whole_duration_answer contact_seconds pass_list
          (suitable_passes, pass_duration_list))"

text \<open>
  The branch taken when \<^verbatim>\<open>suitable_passes\<close> is empty (lines 651-659):
  \<^verbatim>\<open>
  print(f"NO AVAILABLE passes that meet {minimum_elevation} degree elevation and "
        f"{int(contact_seconds/60)}:00 minutes duration requirements.")
  print("The longest pass duration in this window is "
        + str(max(pass_duration_list)).split("0:")[1] + " minutes")
  \<close>
  The result is the lines printed so far and how the branch ends. \<^verbatim>\<open>max\<close> of an empty
  list raises \<^verbatim>\<open>ValueError\<close>.
\<close>

definition max_of :: "timedelta list \<Rightarrow> error + timedelta" where
  "max_of xs = (case xs of [] \<Rightarrow> Inl ValueError | x # rest \<Rightarrow> Inr (fold max rest x))"

definition no_pass_report :: "(real \<Rightarrow> string) \<Rightarrow> real \<Rightarrow> int option \<Rightarrow> timedelta list
    \<Rightarrow> string list \<times> (error + unit)" where
  "no_pass_report str_float minimum_elevation contact_seconds pass_duration_list =
     (case contact_seconds of
        None \<Rightarrow> ([], Inl UnboundLocalError)
      | Some cs \<Rightarrow>
          (let line1 = ''NO AVAILABLE passes that meet '' @ str_float minimum_elevation
                 @ '' degree elevation and '' @ str_int (int_div60 cs)
                 @ '':00 minutes duration requirements.''
           in case and_then (max_of pass_duration_list)
                     (\<lambda>longest. item (split ''0:'' (str_timedelta longest)) 1) of
                Inl e \<Rightarrow> ([line1], Inl e)
              | Inr shown \<Rightarrow>
                  ([line1, ''The longest pass duration in this window is '' @ shown
                           @ '' minutes''], Inr ())))"

text \<open>
  \<open>schedule_contact\<close> up to the check-box of the suitable passes: the lines printed and
  either the exception that ends the operation or \<^verbatim>\<open>suitable_passes\<close>. When the whole
  pass is declined, the first line printed is the note of lines 527-529, before the
  duration is asked for. When the list is not empty the operation goes on with the
  prompt built by \<open>get_pass_details\<close> and, for every row ticked,
  \<open>print_selected_contacts\<close> below.
\<close>

definition partial_note :: string where
  "partial_note = ''Contacts shorter than the complete pass are scheduled in the middle of the contact window to maximize elevation.''"

definition schedule_contact :: "(real \<Rightarrow> string) \<Rightarrow> contact list \<Rightarrow> real \<Rightarrow> bool \<Rightarrow> int
    \<Rightarrow> string list \<times> (error + contact list)" where
  "schedule_contact str_float pass_list minimum_elevation whole_duration_answer contact_minutes =
     (let contact_seconds = (if whole_duration_answer then None else Some (60 * contact_minutes));
          printed = (if whole_duration_answer then [] else [partial_note])
      in case window_filter minimum_elevation whole_duration_answer contact_seconds pass_list
                ([], []) of
           Inl e \<Rightarrow> (printed, Inl e)
         | Inr (suitable_passes, pass_duration_list) \<Rightarrow>
             if suitable_passes \<noteq> [] then
               (printed @
                [''There are '' @ str_int (int (length suitable_passes)) @ '' passes that meet the ''
                  @ str_float minimum_elevation
                  @ (if whole_duration_answer then '' degree elevation duration requirements.''
                     else '' degree elevation and '' @ str_float (real_of_int (60 * contact_minutes) / 60)
                          @ '' minutes duration requirements.'')],
                Inr suitable_passes)
             else
               (case no_pass_report str_float minimum_elevation contact_seconds pass_duration_list of
                  (out, Inl e) \<Rightarrow> (printed @ out, Inl e)
                | (out, Inr u) \<Rightarrow> (printed @ out, Inr suitable_passes)))"

section \<open>The rows of the pass prompt and the contact times (lines 136-167, 401-490)\<close>

text \<open>
  \<open>pass_details\<close> is the body of the loop of \<^verbatim>\<open>get_pass_details\<close>: the row of one pass.
  The prompt answers with the texts of the rows ticked.
\<close>

definition pass_details :: "(real \<Rightarrow> string) \<Rightarrow> contact \<Rightarrow> error + string" where
  "pass_details str_float pass =
     (let duration = endTime pass - startTime pass
      in and_then (time_text (startTime pass)) (\<lambda>start_text.
         and_then (time_text (endTime pass)) (\<lambda>end_text.
         Inr (str_date (date_of (startTime pass))
              @ ''  --  '' @ start_text
              @ ''  --  '' @ end_text
              @ ''  --  '' @ ljust 20 (str_timedelta duration)
              @ ''  --  '' @ ljust 14 (groundStation pass)
              @ ''  --  '' @ ljust 22 (region pass)
              @ ''  --  '' @ str_float (maximumElevation pass)))))"

fun get_pass_details :: "(real \<Rightarrow> string) \<Rightarrow> contact list \<Rightarrow> error + string list" where
  "get_pass_details str_float [] = Inr []"
| "get_pass_details str_float (pass # passes) =
     and_then (pass_details str_float pass) (\<lambda>row.
     and_then (get_pass_details str_float passes) (\<lambda>rows. Inr (row # rows)))"

text \<open>
  The offset of a contact shorter than its pass (lines 442-445):
  \<^verbatim>\<open>
  contact_offset = (pass_duration - contact_duration) / 2
  contact_offset = contact_offset - datetime.timedelta(microseconds=contact_offset.microseconds)
  \<close>
\<close>

definition contact_offset_of :: "timedelta \<Rightarrow> timedelta \<Rightarrow> timedelta" where
  "contact_offset_of pass_duration contact_duration =
     (let contact_offset = divide_and_round (pass_duration - contact_duration) 2
      in contact_offset - td_microseconds contact_offset)"

text \<open>
  \<open>print_selected_contacts\<close> takes a ticked row apart at \<^verbatim>\<open>"--"\<close> and computes the
  times of the contact to reserve. It answers the line it prints and the triple it
  returns: start, end, ground station. In the source \<^verbatim>\<open>pass_duration\<close> is the difference
  of the two times of day of the row, both parsed with \<^verbatim>\<open>"%H:%M:%S%z"\<close>, and both
  datetimes of the result are built from the first field of the row, the date of the
  start of the pass.
\<close>

definition print_selected_contacts :: "string \<Rightarrow> bool \<Rightarrow> int
    \<Rightarrow> error + string \<times> datetime \<times> datetime \<times> string" where
  "print_selected_contacts selected_pass whole_duration_answer contact_seconds =
     (let fields = split ''--'' selected_pass in
      and_then (item fields 0) (\<lambda>f0.
      and_then (item fields 1) (\<lambda>f1.
      and_then (item fields 2) (\<lambda>f2.
      and_then (item fields 4) (\<lambda>f4.
      and_then (item fields 5) (\<lambda>f5.
      and_then (item fields 6) (\<lambda>f6.
      (let selected_contact_start_date = strip f0;
           selected_pass_start_time = strip f1;
           selected_pass_end_time = strip f2;
           selected_contact_groundstation = strip f4;
           selected_contact_region = strip f5;
           selected_contact_elevation = strip f6;
           details = (\<lambda>start_time end_time duration.
              selected_contact_start_date
              @ ''  --  '' @ start_time
              @ ''  --  '' @ end_time
              @ ''  --  '' @ ljust 8 duration
              @ ''  --  '' @ ljust 14 selected_contact_groundstation
              @ ''  --  '' @ ljust 22 selected_contact_region
              @ ''  --  '' @ selected_contact_elevation)
       in if whole_duration_answer then
            and_then (strptime_YmdHMSz
                (selected_contact_start_date @ '' '' @ selected_pass_start_time))
              (\<lambda>selected_contact_start_datetime.
            and_then (strptime_YmdHMSz
                (selected_contact_start_date @ '' '' @ selected_pass_end_time))
              (\<lambda>selected_contact_end_datetime.
            and_then (time_text selected_contact_end_datetime) (\<lambda>selected_contact_end_time.
            and_then (item fields 3) (\<lambda>f3.
            Inr (details selected_pass_start_time selected_contact_end_time (strip f3),
                 selected_contact_start_datetime, selected_contact_end_datetime,
                 selected_contact_groundstation)))))
          else
            and_then (strptime_HMSz selected_pass_end_time) (\<lambda>pass_end.
            and_then (strptime_HMSz selected_pass_start_time) (\<lambda>pass_start.
            (let pass_duration = pass_end - pass_start;
                 contact_duration = timedelta_of_minutes (int_div60 contact_seconds);
                 contact_offset = contact_offset_of pass_duration contact_duration
             in and_then (time_text (pass_start + contact_offset))
                  (\<lambda>selected_contact_start_time.
                and_then (strptime_YmdHMSz
                    (selected_contact_start_date @ '' '' @ selected_contact_start_time))
                  (\<lambda>selected_contact_start_datetime.
                and_then (time_text (pass_end - contact_offset))
                  (\<lambda>selected_contact_end_time.
                and_then (strptime_YmdHMSz
                    (selected_contact_start_date @ '' '' @ selected_contact_end_time))
                  (\<lambda>selected_contact_end_datetime.
                Inr (details selected_contact_start_time selected_contact_end_time
                       (str_timedelta contact_duration),
                     selected_contact_start_datetime, selected_contact_end_datetime,
                     selected_contact_groundstation))))))))))))))))"

text \<open>The interval to reserve: the first two components of the triple returned.\<close>

definition reservation :: "string \<Rightarrow> bool \<Rightarrow> int \<Rightarrow> error + datetime \<times> datetime" where
  "reservation selected_pass whole_duration_answer contact_seconds =
     and_then (print_selected_contacts selected_pass whole_duration_answer contact_seconds)
       (\<lambda>(line, start_datetime, end_datetime, station). Inr (start_datetime, end_datetime))"

section \<open>view_contact and cancel_contact (lines 64-74, 662-890)\<close>

text \<open>
  \<^verbatim>\<open>mission_profile_arn.split("/")[1]\<close>, then the API call for the profile's name.
\<close>

definition get_mission_profile_name :: "gs_client \<Rightarrow> string \<Rightarrow> error + string" where
  "get_mission_profile_name gs mission_profile_arn =
     and_then (item (split ''/'' mission_profile_arn) 1)
       (\<lambda>mission_profile_id. get_mission_profile gs mission_profile_id)"

text \<open>The row of one contact, as \<^verbatim>\<open>view_contact\<close> prints it and offers it for ticking.\<close>

definition contact_details :: "(real \<Rightarrow> string) \<Rightarrow> string \<Rightarrow> contact \<Rightarrow> error + string" where
  "contact_details str_float mission_profile_name contact =
     (let duration = endTime contact - startTime contact
      in and_then (time_text (startTime contact)) (\<lambda>start_text.
         and_then (time_text (endTime contact)) (\<lambda>end_text.
         Inr (str_date (date_of (startTime contact))
              @ ''  --  '' @ start_text
              @ ''  --  '' @ end_text
              @ ''  --  '' @ ljust 8 (str_timedelta duration)
              @ ''  --  '' @ ljust 14 (groundStation contact)
              @ ''  --  '' @ ljust 20 mission_profile_name
              @ ''  --  '' @ ljust 22 (region contact)
              @ ''  --  '' @ ljust 20 (str_float (maximumElevation contact))
              @ ''  --  '' @ ljust 16 (contactStatus contact)
              @ ''  --  '' @ contactId contact))))"

fun contact_rows :: "gs_client \<Rightarrow> (real \<Rightarrow> string) \<Rightarrow> contact list \<Rightarrow> error + string list" where
  "contact_rows gs str_float [] = Inr []"
| "contact_rows gs str_float (contact # rest) =
     and_then (get_mission_profile_name gs (missionProfileArn contact)) (\<lambda>mission_profile_name.
     and_then (contact_details str_float mission_profile_name contact) (\<lambda>row.
     and_then (contact_rows gs str_float rest) (\<lambda>rows. Inr (row # rows))))"

text \<open>
  \<^verbatim>\<open>view_contact(gs_client, cancel)\<close>: the status filter depends on \<^verbatim>\<open>cancel\<close>; the
  result is the rows and the records they were printed from.
\<close>

definition view_statuses :: "bool \<Rightarrow> string list" where
  "view_statuses cancel =
     (if cancel then [''SCHEDULED'']
      else [''SCHEDULED'', ''SCHEDULING'', ''FAILED_TO_SCHEDULE'', ''AWS_CANCELLED'', ''CANCELLED'',
            ''COMPLETED'', ''FAILED'', ''AWS_CANCELLED'', ''AWS_FAILED'', ''CANCELLED'',
            ''FAILED_TO_SCHEDULE''])"

definition view_contact :: "gs_client \<Rightarrow> (real \<Rightarrow> string) \<Rightarrow> string list \<Rightarrow> bool
    \<Rightarrow> error + string list \<times> contact list" where
  "view_contact gs str_float selected_groundstations cancel =
     and_then (get_contacts gs (view_statuses cancel) selected_groundstations) (\<lambda>responce.
     and_then (contact_rows gs str_float responce) (\<lambda>scheduled_contacts.
     Inr (scheduled_contacts, responce)))"

text \<open>
  The start of a ticked row, parsed back (lines 828-833):
  \<^verbatim>\<open>
  target_contact_start_date = target_contact.split("--")[0].strip()
  target_contact_start_time = target_contact.split("--")[1].strip()
  target_contact_start_datetime = datetime.datetime.strptime(
      (target_contact_start_date + " " + target_contact_start_time), "%Y-%m-%d %H:%M:%S%z")
  \<close>
\<close>

definition target_start :: "string \<Rightarrow> error + datetime" where
  "target_start target_contact =
     and_then (item (split ''--'' target_contact) 0) (\<lambda>f0.
     and_then (item (split ''--'' target_contact) 1) (\<lambda>f1.
     strptime_YmdHMSz (strip f0 @ '' '' @ strip f1)))"

text \<open>
  The scan of the fetched records for one ticked row (lines 835-885). The result is the
  list of \<^verbatim>\<open>contactId\<close>s handed to \<^verbatim>\<open>gs_client.cancel_contact\<close>, in order, and the
  exception that ended the scan, if any. The loop has no \<^verbatim>\<open>break\<close>. The test is the
  \<^verbatim>\<open>==\<close> of \<open>datetime_eq\<close>. The lines printed are left out: what they print is
  computed from the record and cannot raise.
\<close>

fun cancel_matching :: "gs_client \<Rightarrow> datetime \<Rightarrow> contact list \<Rightarrow> string list \<times> error option" where
  "cancel_matching gs target [] = ([], None)"
| "cancel_matching gs target (contact # rest) =
     (if datetime_eq gs (startTime contact) target then
        (case get_mission_profile_name gs (missionProfileArn contact) of
           Inl e \<Rightarrow> ([], Some e)
         | Inr mission_profile_name \<Rightarrow>
             (case cancel_contact_call gs (contactId contact) of
                Inl e \<Rightarrow> ([contactId contact], Some e)
              | Inr cancellation \<Rightarrow>
                  (case cancel_matching gs target rest of
                     (calls, r) \<Rightarrow> (contactId contact # calls, r))))
      else cancel_matching gs target rest)"

definition cancel_row :: "gs_client \<Rightarrow> contact list \<Rightarrow> string \<Rightarrow> string list \<times> error option" where
  "cancel_row gs responce target_contact =
     (case target_start target_contact of
        Inl e \<Rightarrow> ([], Some e)
      | Inr target \<Rightarrow> cancel_matching gs target responce)"

fun cancel_rows :: "gs_client \<Rightarrow> contact list \<Rightarrow> string list \<Rightarrow> string list \<times> error option" where
  "cancel_rows gs responce [] = ([], None)"
| "cancel_rows gs responce (target_contact # rest) =
     (case cancel_row gs responce target_contact of
        (calls, Some e) \<Rightarrow> (calls, Some e)
      | (calls, None) \<Rightarrow>
          (case cancel_rows gs responce rest of (calls', r) \<Rightarrow> (calls @ calls', r)))"

text \<open>
  The listing shown before the confirmation (lines 766-811) scans the same way and only
  asks for the profile names; it can end the operation with an exception.
\<close>

fun list_matching :: "gs_client \<Rightarrow> datetime \<Rightarrow> contact list \<Rightarrow> error option" where
  "list_matching gs target [] = None"
| "list_matching gs target (contact # rest) =
     (if datetime_eq gs (startTime contact) target then
        (case get_mission_profile_name gs (missionProfileArn contact) of
           Inl e \<Rightarrow> Some e
         | Inr mission_profile_name \<Rightarrow> list_matching gs target rest)
      else list_matching gs target rest)"

fun list_rows :: "gs_client \<Rightarrow> contact list \<Rightarrow> string list \<Rightarrow> error option" where
  "list_rows gs responce [] = None"
| "list_rows gs responce (target_contact # rest) =
     (case target_start target_contact of
        Inl e \<Rightarrow> Some e
      | Inr target \<Rightarrow>
          (case list_matching gs target responce of
             Some e \<Rightarrow> Some e
           | None \<Rightarrow> list_rows gs responce rest))"

text \<open>
  \<^verbatim>\<open>cancel_contact\<close>: \<open>contacts_to_cancel\<close> is the answer of the check-box (the rows
  ticked), \<open>confirmation\<close> the answer to "Are you sure?". With no row ticked, or without
  the confirmation, control goes back to the main menu and nothing is cancelled.
\<close>

definition cancel_contact :: "gs_client \<Rightarrow> (real \<Rightarrow> string) \<Rightarrow> string list \<Rightarrow> string list
    \<Rightarrow> bool \<Rightarrow> string list \<times> error option" where
  "cancel_contact gs str_float selected_groundstations contacts_to_cancel confirmation =
     (case view_contact gs str_float selected_groundstations True of
        Inl e \<Rightarrow> ([], Some e)
      | Inr (scheduled_contacts, responce) \<Rightarrow>
          if scheduled_contacts \<noteq> [] then
            (if contacts_to_cancel = [] then ([], None)
             else
               (case list_rows gs responce contacts_to_cancel of
                  Some e \<Rightarrow> ([], Some e)
                | None \<Rightarrow>
                    if confirmation then cancel_rows gs responce contacts_to_cancel
                    else ([], None)))
          else ([], None))"

section \<open>Example inputs\<close>

text \<open>
  Passes and contacts used to run the definitions. \<open>late_pass\<close> is a ten-minute pass
  over midnight UTC, \<open>morning_pass\<close> the pass of the specification's scenarios, and
  \<open>fraction_pass\<close> a pass of 240.5 seconds. \<open>late_row\<close> and \<open>morning_row\<close> are the
  rows \<^verbatim>\<open>get_pass_details\<close> prints for the first two (lemma \<open>example_rows\<close>).
\<close>

definition example_arn :: string where
  "example_arn = ''arn:aws:groundstation:us-east-2:111122223333:mission-profile/mp-1''"

definition late_pass :: contact where
  "late_pass = \<lparr>contactId = ''pass-1'', contactStatus = ''AVAILABLE'',
     startTime = utc 2024 1 1 23 55 0, endTime = utc 2024 1 2 0 5 0,
     groundStation = ''Ohio 1'', region = ''us-east-2'', maximumElevation = 45,
     missionProfileArn = example_arn\<rparr>"

definition morning_pass :: contact where
  "morning_pass = \<lparr>contactId = ''pass-2'', contactStatus = ''AVAILABLE'',
     startTime = utc 2024 1 1 9 0 0, endTime = utc 2024 1 1 9 10 0,
     groundStation = ''Ohio 1'', region = ''us-east-2'', maximumElevation = 45,
     missionProfileArn = example_arn\<rparr>"

definition fraction_pass :: contact where
  "fraction_pass = \<lparr>contactId = ''pass-3'', contactStatus = ''AVAILABLE'',
     startTime = utc 2024 1 1 12 0 0, endTime = utc 2024 1 1 12 4 0 + 500000,
     groundStation = ''Ohio 1'', region = ''us-east-2'', maximumElevation = 45,
     missionProfileArn = example_arn\<rparr>"

definition late_row :: string where
  "late_row = ''2024-01-01  --  23:55:00+00:00  --  00:05:00+00:00  --  0:10:00               --  Ohio 1          --  us-east-2               --  45.0''"

definition morning_row :: string where
  "morning_row = ''2024-01-01  --  09:00:00+00:00  --  09:10:00+00:00  --  0:10:00               --  Ohio 1          --  us-east-2               --  45.0''"

text \<open>
  Two scheduled contacts that start at the same instant on two ground stations, a
  client whose calls all answer, on a machine whose local zone is UTC, and the row \<^verbatim>\<open>view_contact\<close> prints for the first
  contact (lemma \<open>example_contact_row\<close>). \<open>other_row\<close> is a row whose start (10:00:00)
  is the start of neither contact.
\<close>

definition ohio_contact :: contact where
  "ohio_contact = \<lparr>contactId = ''contact-ohio'', contactStatus = ''SCHEDULED'',
     startTime = utc 2024 1 1 9 0 0, endTime = utc 2024 1 1 9 10 0,
     groundStation = ''Ohio 1'', region = ''us-east-2'', maximumElevation = 45,
     missionProfileArn = example_arn\<rparr>"

definition oregon_contact :: contact where
  "oregon_contact = \<lparr>contactId = ''contact-oregon'', contactStatus = ''SCHEDULED'',
     startTime = utc 2024 1 1 9 0 0, endTime = utc 2024 1 1 9 8 0,
     groundStation = ''Oregon 1'', region = ''us-west-2'', maximumElevation = 30,
     missionProfileArn = example_arn\<rparr>"

definition example_client :: gs_client where
  "example_client = \<lparr>
     list_contacts = (\<lambda>ground_station status_list.
        if status_list = [''SCHEDULED''] \<and> ground_station = ''Ohio 1'' then Inr [ohio_contact]
        else if status_list = [''SCHEDULED''] \<and> ground_station = ''Oregon 1''
          then Inr [oregon_contact]
        else Inr []),
     get_mission_profile = (\<lambda>mission_profile_id. Inr ''profile''),
     cancel_contact_call = (\<lambda>contact_id. Inr contact_id),
     repeated_hour = (\<lambda>t. False)\<rparr>"

definition ohio_row :: string where
  "ohio_row = ''2024-01-01  --  09:00:00+00:00  --  09:10:00+00:00  --  0:10:00   --  Ohio 1          --  profile               --  us-east-2               --  45.0                  --  SCHEDULED         --  contact-ohio''"

text \<open>
  The same client on a machine in the zone America/New_York, where on 2024-11-03 the
  hour from 01:00 to 02:00 local time runs twice, from 05:00 to 07:00 UTC; a contact that
  starts in that hour, at 05:30:00 UTC, and the first two fields of its row.
\<close>

definition new_york_client :: gs_client where
  "new_york_client = example_client
     \<lparr>repeated_hour := (\<lambda>t. utc 2024 11 3 5 0 0 \<le> t \<and> t < utc 2024 11 3 7 0 0)\<rparr>"

definition november_contact :: contact where
  "november_contact = \<lparr>contactId = ''contact-november'', contactStatus = ''SCHEDULED'',
     startTime = utc 2024 11 3 5 30 0, endTime = utc 2024 11 3 5 40 0,
     groundStation = ''Ohio 1'', region = ''us-east-2'', maximumElevation = 45,
     missionProfileArn = example_arn\<rparr>"

definition november_row :: string where
  "november_row = ''2024-11-03  --  05:30:00+00:00  --  05:40:00+00:00  --  0:10:00   --  Ohio 1          --  profile               --  us-east-2               --  45.0                  --  SCHEDULED         --  contact-november''"

definition other_row :: string where
  "other_row = ''2024-01-01  --  10:00:00+00:00  --  10:10:00+00:00  --  0:10:00   --  Ohio 1          --  profile               --  us-east-2               --  45.0                  --  SCHEDULED         --  contact-none''"

section \<open>Properties\<close>

lemma td_seconds_range: "0 \<le> td_seconds d \<and> td_seconds d < 86400"
  unfolding td_seconds_def usec_per_day_def usec_per_second_def
  by (simp add: pos_imp_zdiv_nonneg_iff div_less_iff_less_mult)

subsection \<open>The merge of the stations' lists\<close>

lemma length_concat_sum: "length (concat xss) = sum_list (map length xss)"
  by (induction xss) simp_all

lemma flat_sorted_sorted_and_complete:
  "sorted (map startTime (flat_sorted all_passes))
   \<and> length (flat_sorted all_passes) = sum_list (map length all_passes)
   \<and> mset (flat_sorted all_passes) = mset (concat all_passes)"
  unfolding flat_sorted_def by (simp add: length_concat_sum)

lemma fetch_all_answers:
  "map (\<lambda>g. list_contacts gs g contact_type) stations = map Inr answers
   \<Longrightarrow> fetch_all gs contact_type stations acc = Inr (acc @ answers)"
proof (induction stations arbitrary: acc answers)
  case Nil
  then show ?case by simp
next
  case (Cons g rest)
  from Cons.prems obtain l ls where l: "answers = l # ls"
    and g: "list_contacts gs g contact_type = Inr l"
    and r: "map (\<lambda>g. list_contacts gs g contact_type) rest = map Inr ls"
    by (cases answers) auto
  from Cons.IH[OF r, of "acc @ [l]"] g l show ?case by simp
qed

text \<open>
  C3. Let \<open>answers\<close> be what \<^verbatim>\<open>list_contacts\<close> answered for the selected ground
  stations, one list for each station. Then \<^verbatim>\<open>get_contacts\<close> returns a single list
  that is sorted by start time, earliest first, has as many records as the lists
  together, and holds exactly their records.
\<close>

theorem get_contacts_sorted_and_complete:
  assumes "map (\<lambda>g. list_contacts gs g contact_type) selected_groundstations = map Inr answers"
  shows "\<exists>flat_passes.
           get_contacts gs contact_type selected_groundstations = Inr flat_passes
         \<and> sorted (map startTime flat_passes)
         \<and> length flat_passes = sum_list (map length answers)
         \<and> mset flat_passes = mset (concat answers)"
proof -
  from fetch_all_answers[OF assms, of "[]"]
  have "get_contacts gs contact_type selected_groundstations = Inr (flat_sorted answers)"
    by (simp add: get_contacts_def and_then_def)
  with flat_sorted_sorted_and_complete[of answers] show ?thesis by simp
qed

theorem get_contacts_sorted_and_complete_witness:
  "map (\<lambda>g. list_contacts example_client g [''SCHEDULED'']) [''Ohio 1'', ''Oregon 1'']
     = map Inr [[ohio_contact], [oregon_contact]]
   \<and> (\<exists>flat_passes.
         get_contacts example_client [''SCHEDULED''] [''Ohio 1'', ''Oregon 1''] = Inr flat_passes
       \<and> sorted (map startTime flat_passes)
       \<and> length flat_passes = 2
       \<and> mset flat_passes = mset [ohio_contact, oregon_contact])"
proof -
  have h: "map (\<lambda>g. list_contacts example_client g [''SCHEDULED'']) [''Ohio 1'', ''Oregon 1'']
             = map Inr [[ohio_contact], [oregon_contact]]"
    by (simp add: example_client_def)
  from get_contacts_sorted_and_complete[OF h] h show ?thesis by (simp add: numeral_2_eq_2)
qed

subsection \<open>The elevation validator\<close>

text \<open>
  C9. The validator is meant to accept the degrees 1 to 90, as its own message says
  (\<^verbatim>\<open>Please enter a valid elevation degree value [1-90]\<close>). The pattern
  \<^verbatim>\<open>^[1-8][0-9]?$|^90$\<close> has no alternative for a lone \<^verbatim>\<open>9\<close>: the text \<^verbatim>\<open>9\<close> raises
  \<^verbatim>\<open>ValidationError\<close>, while its neighbours \<^verbatim>\<open>8\<close> and \<^verbatim>\<open>10\<close> pass.
\<close>

theorem elevation_nine_rejected:
  "ElevationValidator ''9'' = Inl ValidationError
   \<and> ElevationValidator ''8'' = Inr () \<and> ElevationValidator ''10'' = Inr ()
   \<and> ElevationValidator ''90'' = Inr ()"
  by (simp add: ElevationValidator_def at_end_def in_class_def)

subsection \<open>Running the examples\<close>

lemma example_instants:
  "utc 2024 1 1 23 55 0 = 1704153300000000" "utc 2024 1 2 0 5 0 = 1704153900000000"
  "utc 2024 1 1 0 5 0 = 1704067500000000"
  "utc 2024 1 1 11 58 0 = 1704110280000000" "utc 2024 1 1 12 2 0 = 1704110520000000"
  "utc 2024 1 1 9 0 0 = 1704099600000000" "utc 2024 1 1 9 10 0 = 1704100200000000"
  "utc 2024 1 1 9 3 0 = 1704099780000000" "utc 2024 1 1 9 7 0 = 1704100020000000"
  "utc 2024 1 1 9 8 0 = 1704100080000000" "utc 2024 1 1 10 0 0 = 1704103200000000"
  "utc 2024 1 1 12 0 0 = 1704110400000000" "utc 2024 1 1 12 4 0 = 1704110640000000"
  by (simp_all add: utc_def days_from_civil_def usec_per_day_def usec_per_second_def)

lemma example_rows:
  "pass_details (\<lambda>x. ''45.0'') late_pass = Inr late_row"
  "pass_details (\<lambda>x. ''45.0'') morning_pass = Inr morning_row"
  by code_simp+

lemma example_contact_row:
  "contact_rows example_client (\<lambda>x. ''45.0'') [ohio_contact] = Inr [ohio_row]"
  by code_simp

lemma late_row_fields:
  "split ''--'' late_row =
     [''2024-01-01  '', ''  23:55:00+00:00  '', ''  00:05:00+00:00  '',
      ''  0:10:00               '', ''  Ohio 1          '', ''  us-east-2               '',
      ''  45.0'']"
  by code_simp

lemma morning_row_fields:
  "split ''--'' morning_row =
     [''2024-01-01  '', ''  09:00:00+00:00  '', ''  09:10:00+00:00  '',
      ''  0:10:00               '', ''  Ohio 1          '', ''  us-east-2               '',
      ''  45.0'']"
  by code_simp

lemma example_strips:
  "strip ''2024-01-01  '' = ''2024-01-01''"
  "strip ''  23:55:00+00:00  '' = ''23:55:00+00:00''"
  "strip ''  00:05:00+00:00  '' = ''00:05:00+00:00''"
  "strip ''  09:00:00+00:00  '' = ''09:00:00+00:00''"
  "strip ''  09:10:00+00:00  '' = ''09:10:00+00:00''"
  "strip ''  10:00:00+00:00  '' = ''10:00:00+00:00''"
  "strip ''  0:10:00               '' = ''0:10:00''"
  "strip ''  Ohio 1          '' = ''Ohio 1''"
  "strip ''  us-east-2               '' = ''us-east-2''"
  "strip ''  45.0'' = ''45.0''"
  by code_simp+

lemma example_parses:
  "strptime_YmdHMSz ''2024-01-01 23:55:00+00:00'' = Inr 1704153300000000"
  "strptime_YmdHMSz ''2024-01-01 00:05:00+00:00'' = Inr 1704067500000000"
  "strptime_YmdHMSz ''2024-01-01 11:58:00+00:00'' = Inr 1704110280000000"
  "strptime_YmdHMSz ''2024-01-01 12:02:00+00:00'' = Inr 1704110520000000"
  "strptime_YmdHMSz ''2024-01-01 09:00:00+00:00'' = Inr 1704099600000000"
  "strptime_YmdHMSz ''2024-01-01 09:10:00+00:00'' = Inr 1704100200000000"
  "strptime_YmdHMSz ''2024-01-01 09:03:00+00:00'' = Inr 1704099780000000"
  "strptime_YmdHMSz ''2024-01-01 09:07:00+00:00'' = Inr 1704100020000000"
  "strptime_YmdHMSz ''2024-01-01 10:00:00+00:00'' = Inr 1704103200000000"
  by code_simp+

text \<open>Times of day parsed alone are on 1900-01-01, day \<open>-25567\<close> of the epoch.\<close>

lemma example_time_parses:
  "strptime_HMSz ''23:55:00+00:00'' = Inr (-2208902700000000)"
  "strptime_HMSz ''00:05:00+00:00'' = Inr (-2208988500000000)"
  "strptime_HMSz ''09:00:00+00:00'' = Inr (-2208956400000000)"
  "strptime_HMSz ''09:10:00+00:00'' = Inr (-2208955800000000)"
  by code_simp+

lemma example_offsets:
  "contact_offset_of (- 85800000000) (timedelta_of_minutes (int_div60 240)) = - 43020000000"
  "contact_offset_of 600000000 (timedelta_of_minutes (int_div60 240)) = 180000000"
  by (simp_all add: contact_offset_of_def divide_and_round_def td_microseconds_def
      timedelta_of_minutes_def int_div60_def usec_per_second_def Let_def)

lemma example_time_texts:
  "time_text 1704067500000000 = Inr ''00:05:00+00:00''"
  "time_text 1704100200000000 = Inr ''09:10:00+00:00''"
  "time_text (- 2208945720000000) = Inr ''11:58:00+00:00''"
  "time_text (- 2208945480000000) = Inr ''12:02:00+00:00''"
  "time_text (- 2208956220000000) = Inr ''09:03:00+00:00''"
  "time_text (- 2208955980000000) = Inr ''09:07:00+00:00''"
  by code_simp+

lemma late_whole:
  "reservation late_row True 0 = Inr (1704153300000000, 1704067500000000)"
  unfolding reservation_def print_selected_contacts_def late_row_fields
  by (simp add: Let_def item_def and_then_def example_strips example_parses example_time_texts)

lemma late_partial:
  "reservation late_row False 240 = Inr (1704110280000000, 1704110520000000)"
  unfolding reservation_def print_selected_contacts_def late_row_fields
  by (simp add: Let_def item_def and_then_def example_strips example_parses example_time_parses
      example_offsets example_time_texts)

lemma morning_whole:
  "reservation morning_row True 0 = Inr (1704099600000000, 1704100200000000)"
  unfolding reservation_def print_selected_contacts_def morning_row_fields
  by (simp add: Let_def item_def and_then_def example_strips example_parses example_time_texts)

lemma morning_partial:
  "reservation morning_row False 240 = Inr (1704099780000000, 1704100020000000)"
  unfolding reservation_def print_selected_contacts_def morning_row_fields
  by (simp add: Let_def item_def and_then_def example_strips example_parses example_time_parses
      example_offsets example_time_texts)

subsection \<open>The contact times of a ticked pass\<close>

text \<open>
  The offset itself is right when it is given the true length of the pass: for a pass
  of \<open>D\<close> and a contact of \<open>R\<close> microseconds, both whole seconds and \<open>R \<le> D\<close>, it is a
  whole number of seconds, not negative, and leaves \<open>R\<close> or \<open>R\<close> plus one second
  between pass start plus offset and pass end minus offset.
\<close>

lemma contact_offset_centres:
  assumes "D - R = k * 1000000" and "0 \<le> k"
  shows "0 \<le> contact_offset_of D R
       \<and> contact_offset_of D R mod usec_per_second = 0
       \<and> (D - 2 * contact_offset_of D R = R
          \<or> D - 2 * contact_offset_of D R = R + usec_per_second)"
proof -
  have a: "divide_and_round (k * 1000000) 2 = k * 500000"
    by (simp add: divide_and_round_def Let_def)
  have b: "(k * 500000) mod 1000000 = (if even k then 0 else 500000)"
  proof (cases "even k")
    case True
    then obtain j where "k = 2 * j" by (auto elim: evenE)
    then show ?thesis by simp
  next
    case False
    then obtain j where "k = 2 * j + 1" by (auto elim: oddE)
    then have "k * 500000 = j * 1000000 + 500000" by simp
    then show ?thesis using False by simp
  qed
  show ?thesis
    using assms a b
    by (cases "even k")
      (auto simp: contact_offset_of_def td_microseconds_def usec_per_second_def Let_def
            elim!: evenE oddE)
qed

text \<open>
  C6. With the whole pass chosen the reservation should be the interval of the pass.
  \<open>late_pass\<close> lasts from 2024-01-01 23:55:00 to 2024-01-02 00:05:00 UTC. Its row
  carries one date, that of the start, and \<^verbatim>\<open>print_selected_contacts\<close> puts that
  date before the end time too: the interval it returns ends on 2024-01-01 at 00:05:00,
  a day before the pass ends and before its own start. For \<open>morning_pass\<close>, which
  stays within one UTC day, the interval is that of the pass.
\<close>

theorem whole_pass_over_midnight:
  "reservation late_row True 0 = Inr (utc 2024 1 1 23 55 0, utc 2024 1 1 0 5 0)
   \<and> reservation late_row True 0 \<noteq> Inr (startTime late_pass, endTime late_pass)
   \<and> reservation morning_row True 0 = Inr (startTime morning_pass, endTime morning_pass)"
  by (simp add: late_whole morning_whole late_pass_def morning_pass_def example_instants)

text \<open>
  C1. A contact of 240 seconds in \<open>late_pass\<close> (600 seconds long) should lie inside
  the pass, centred. In the source \<^verbatim>\<open>pass_duration\<close> is the difference of the two times
  of day, here 00:05:00 - 23:55:00, which is minus 23:50:00; the offset becomes minus
  11:57:00 and the interval returned is 11:58:00 to 12:02:00 on 2024-01-01. It has the
  length asked for, and it is over almost twelve hours before the pass starts.
\<close>

theorem partial_contact_over_midnight:
  "reservation late_row False 240 = Inr (utc 2024 1 1 11 58 0, utc 2024 1 1 12 2 0)
   \<and> utc 2024 1 1 12 2 0 - utc 2024 1 1 11 58 0 = timedelta_of_seconds 240
   \<and> utc 2024 1 1 12 2 0 < startTime late_pass"
  by (simp add: late_partial late_pass_def example_instants timedelta_of_seconds_def
      usec_per_second_def)

text \<open>
  C5. For the pass 09:00:00 to 09:10:00 and a contact of 240 seconds the offset is 180
  seconds and the reservation 09:03:00 to 09:07:00, as the specification's scenario has
  it. For \<open>late_pass\<close> and the same request the rule gives the offset 180 seconds and
  the reservation 23:58:00 to 00:02:00; the source computes the offset minus 43020
  seconds from the times of day and returns another interval.
\<close>

theorem offset_rule_over_midnight:
  "reservation morning_row False 240
     = Inr (startTime morning_pass + timedelta_of_seconds 180,
            endTime morning_pass - timedelta_of_seconds 180)
   \<and> reservation morning_row False 240 = Inr (utc 2024 1 1 9 3 0, utc 2024 1 1 9 7 0)
   \<and> contact_offset_of (endTime late_pass - startTime late_pass) (timedelta_of_seconds 240)
       = timedelta_of_seconds 180
   \<and> reservation late_row False 240
     \<noteq> Inr (startTime late_pass + timedelta_of_seconds 180,
            endTime late_pass - timedelta_of_seconds 180)"
  by (simp add: late_partial morning_partial late_pass_def morning_pass_def example_instants
      timedelta_of_seconds_def usec_per_second_def contact_offset_of_def divide_and_round_def
      td_microseconds_def Let_def)

subsection \<open>The window filter and its report\<close>

text \<open>
  C4. The specification's scenario: the minimum elevation is 80 degrees, a contact of
  4 minutes is asked for, and the one pass fetched culminates at 45 degrees. No pass is
  suitable. The durations are collected only for passes that meet the elevation, so the
  list handed to \<^verbatim>\<open>max\<close> is empty: after the line that no pass is available the
  operation ends with \<^verbatim>\<open>ValueError\<close> and no longest duration is printed. With the whole pass chosen
  \<^verbatim>\<open>contact_seconds\<close> is not bound and the first line already raises.
\<close>

theorem no_pass_meets_elevation:
  "schedule_contact (\<lambda>x. ''80.0'') [morning_pass] 80 False 4
     = ([partial_note,
         ''NO AVAILABLE passes that meet 80.0 degree elevation and 4:00 minutes duration requirements.''],
        Inl ValueError)
   \<and> schedule_contact (\<lambda>x. ''80.0'') [morning_pass] 80 True 4 = ([], Inl UnboundLocalError)"
  by code_simp

lemma window_filter_whole:
  "window_filter E True cs ps (suitable, durations) =
     Inr (suitable @ filter (\<lambda>p. E \<le> maximumElevation p) ps,
          durations @ map (\<lambda>p. endTime p - startTime p)
                        (filter (\<lambda>p. E \<le> maximumElevation p) ps))"
  by (induction ps arbitrary: suitable durations) (simp_all add: Let_def)

lemma window_filter_partial:
  "window_filter E False (Some R) ps (suitable, durations) =
     Inr (suitable @ filter (\<lambda>p. E \<le> maximumElevation p
                                  \<and> R < td_seconds (endTime p - startTime p)) ps,
          durations @ map (\<lambda>p. endTime p - startTime p)
                        (filter (\<lambda>p. E \<le> maximumElevation p) ps))"
  by (induction ps arbitrary: suitable durations) (simp_all add: Let_def)

lemma td_seconds_floor:
  "0 \<le> d \<Longrightarrow> d < usec_per_day \<Longrightarrow> td_seconds d = d div usec_per_second"
  by (simp add: td_seconds_def)

text \<open>
  C2, as stated, fails on a pass whose length is not a whole number of seconds:
  \<open>fraction_pass\<close> is 240.5 seconds long and culminates at 45 degrees, so with the
  threshold 40 degrees and 240 seconds required its length strictly exceeds the
  requirement, and the filter leaves it out, because \<^verbatim>\<open>pass_duration.seconds\<close> is 240.
\<close>

theorem window_filter_fraction_left_out:
  "window_filter 40 False (Some 240) [fraction_pass] ([], []) = Inr ([], [240500000])
   \<and> 40 \<le> maximumElevation fraction_pass
   \<and> timedelta_of_seconds 240 < endTime fraction_pass - startTime fraction_pass"
  by (simp add: fraction_pass_def example_instants td_seconds_def timedelta_of_seconds_def
      usec_per_day_def usec_per_second_def)

text \<open>
  C2, amended. For passes that last less than a day (and do not end before they start),
  the filter selects, in the order fetched, exactly the passes whose maximum elevation
  is at least the threshold and, when a duration of \<open>R\<close> seconds is required, whose
  length in whole seconds (the fraction dropped) is greater than \<open>R\<close>; with the whole
  pass chosen it selects exactly the passes whose maximum elevation is at least the
  threshold. The second component is \<^verbatim>\<open>pass_duration_list\<close>.
\<close>

theorem window_filter_exact:
  assumes "\<forall>p\<in>set pass_list. 0 \<le> endTime p - startTime p \<and> endTime p - startTime p < usec_per_day"
  shows "window_filter E True cs pass_list ([], []) =
           Inr (filter (\<lambda>p. E \<le> maximumElevation p) pass_list,
                map (\<lambda>p. endTime p - startTime p) (filter (\<lambda>p. E \<le> maximumElevation p) pass_list))
       \<and> window_filter E False (Some R) pass_list ([], []) =
           Inr (filter (\<lambda>p. E \<le> maximumElevation p
                             \<and> R < (endTime p - startTime p) div usec_per_second) pass_list,
                map (\<lambda>p. endTime p - startTime p) (filter (\<lambda>p. E \<le> maximumElevation p) pass_list))"
proof -
  have "filter (\<lambda>p. E \<le> maximumElevation p \<and> R < td_seconds (endTime p - startTime p)) pass_list
      = filter (\<lambda>p. E \<le> maximumElevation p
                      \<and> R < (endTime p - startTime p) div usec_per_second) pass_list"
    using assms by (intro filter_cong refl) (simp add: td_seconds_floor)
  then show ?thesis
    by (simp add: window_filter_whole window_filter_partial)
qed

theorem window_filter_exact_witness:
  "0 \<le> endTime morning_pass - startTime morning_pass
   \<and> endTime morning_pass - startTime morning_pass < usec_per_day
   \<and> 0 \<le> endTime fraction_pass - startTime fraction_pass
   \<and> endTime fraction_pass - startTime fraction_pass < usec_per_day
   \<and> window_filter 40 True None [morning_pass, fraction_pass] ([], [])
       = Inr ([morning_pass, fraction_pass], [600000000, 240500000])
   \<and> window_filter 40 False (Some 240) [morning_pass, fraction_pass] ([], [])
       = Inr ([morning_pass], [600000000, 240500000])"
  using window_filter_exact [of "[morning_pass, fraction_pass]" 40 None 240]
  by (simp add: morning_pass_def fraction_pass_def example_instants usec_per_day_def
      usec_per_second_def)

subsection \<open>Cancelling\<close>

lemma cancel_matching_unequal:
  "\<forall>c\<in>set cs. \<not> datetime_eq gs (startTime c) t \<Longrightarrow> cancel_matching gs t cs = ([], None)"
  by (induction cs) simp_all

lemma cancel_matching_none:
  "\<forall>c\<in>set cs. startTime c \<noteq> t \<Longrightarrow> cancel_matching gs t cs = ([], None)"
  by (rule cancel_matching_unequal) (simp add: datetime_eq_def)

lemma cancel_matching_all:
  "\<forall>c\<in>set cs. datetime_eq gs (startTime c) t \<longrightarrow>
       (\<exists>n. get_mission_profile_name gs (missionProfileArn c) = Inr n)
     \<and> (\<exists>r. cancel_contact_call gs (contactId c) = Inr r)
   \<Longrightarrow> cancel_matching gs t cs
         = (map contactId (filter (\<lambda>c. datetime_eq gs (startTime c) t) cs), None)"
  by (induction cs) auto

lemma cancel_matching_subset:
  "set (fst (cancel_matching gs t cs)) \<subseteq> contactId ` set cs"
  by (induction cs) (auto split: sum.splits prod.splits)

lemma cancel_row_subset:
  "set (fst (cancel_row gs responce row)) \<subseteq> contactId ` set responce"
  using cancel_matching_subset[of gs _ responce]
  by (auto simp: cancel_row_def split: sum.splits)

lemma cancel_rows_subset:
  "set (fst (cancel_rows gs responce rows)) \<subseteq> contactId ` set responce"
proof (induction rows)
  case Nil
  then show ?case by simp
next
  case (Cons row rows)
  obtain calls r where a: "cancel_row gs responce row = (calls, r)"
    by (cases "cancel_row gs responce row")
  obtain calls' r' where b: "cancel_rows gs responce rows = (calls', r')"
    by (cases "cancel_rows gs responce rows")
  from cancel_row_subset[of gs responce row] a
  have "set calls \<subseteq> contactId ` set responce" by simp
  moreover from Cons.IH b have "set calls' \<subseteq> contactId ` set responce" by simp
  ultimately show ?case using a b by (cases r) auto
qed

lemma fetch_all_sets:
  "fetch_all gs st stations acc = Inr fetched \<Longrightarrow>
   set (concat fetched) \<subseteq> set (concat acc) \<union>
     {c. \<exists>g\<in>set stations. \<exists>cs. list_contacts gs g st = Inr cs \<and> c \<in> set cs}"
proof (induction stations arbitrary: acc)
  case Nil
  then show ?case by auto
next
  case (Cons g rest)
  then show ?case
    by (fastforce split: sum.splits)
qed

lemma get_contacts_sets:
  assumes g: "get_contacts gs st stations = Inr responce" and c: "c \<in> set responce"
  shows "\<exists>g\<in>set stations. \<exists>cs. list_contacts gs g st = Inr cs \<and> c \<in> set cs"
proof -
  from g obtain all_passes where f: "fetch_all gs st stations [] = Inr all_passes"
    and r: "responce = flat_sorted all_passes"
    by (auto simp: get_contacts_def and_then_def split: sum.splits)
  from c r have "c \<in> set (concat all_passes)" by (simp add: flat_sorted_def)
  with fetch_all_sets[OF f] show ?thesis by auto
qed

lemma ohio_row_fields:
  "item (split ''--'' ohio_row) 0 = Inr ''2024-01-01  ''"
  "item (split ''--'' ohio_row) (Suc 0) = Inr ''  09:00:00+00:00  ''"
  "item (split ''--'' other_row) 0 = Inr ''2024-01-01  ''"
  "item (split ''--'' other_row) (Suc 0) = Inr ''  10:00:00+00:00  ''"
  by code_simp+

lemma example_targets:
  "target_start ohio_row = Inr 1704099600000000"
  "target_start other_row = Inr 1704103200000000"
  by (simp_all add: target_start_def ohio_row_fields and_then_def example_strips example_parses)

lemma example_profile:
  "get_mission_profile_name example_client example_arn = Inr ''profile''"
  by code_simp

lemma example_cancel_call:
  "cancel_contact_call example_client cid = Inr cid"
  by (simp add: example_client_def)

lemma example_local_zone:
  "repeated_hour example_client t = False"
  by (simp add: example_client_def)

lemma datetime_eq_outside_repeated_hour:
  "\<not> repeated_hour gs t \<Longrightarrow> datetime_eq gs a t = (a = t)"
  by (auto simp: datetime_eq_def)

text \<open>
  C8. When the start parsed from a ticked row is the start of no fetched record, the
  scan for that row hands nothing to \<^verbatim>\<open>gs_client.cancel_contact\<close> and ends without an
  exception.
\<close>

theorem unmatched_row_cancels_nothing:
  assumes "target_start target_contact = Inr target"
    and "\<forall>c\<in>set responce. startTime c \<noteq> target"
  shows "cancel_row gs responce target_contact = ([], None)"
  using assms by (simp add: cancel_row_def cancel_matching_none)

theorem unmatched_row_cancels_nothing_witness:
  "target_start other_row = Inr (utc 2024 1 1 10 0 0)
   \<and> startTime ohio_contact \<noteq> utc 2024 1 1 10 0 0
   \<and> startTime oregon_contact \<noteq> utc 2024 1 1 10 0 0
   \<and> cancel_row example_client [ohio_contact, oregon_contact] other_row = ([], None)"
  using unmatched_row_cancels_nothing
    [of other_row "utc 2024 1 1 10 0 0" "[ohio_contact, oregon_contact]" example_client]
  by (simp add: example_targets example_instants ohio_contact_def oregon_contact_def)

text \<open>
  C7, as stated, fails: the scan has no \<^verbatim>\<open>break\<close>. \<open>ohio_contact\<close> and
  \<open>oregon_contact\<close> start at the same instant; ticking the row of the first alone
  cancels both, two calls for one row.
\<close>

theorem one_row_cancels_two_contacts:
  "cancel_row example_client [ohio_contact, oregon_contact] ohio_row
     = ([''contact-ohio'', ''contact-oregon''], None)"
  by (simp add: cancel_row_def example_targets example_instants ohio_contact_def
      oregon_contact_def example_profile example_cancel_call datetime_eq_def
      example_local_zone)

text \<open>
  C7, amended. For a ticked row whose start parses, and as long as the API calls
  answer, the scan cancels every fetched record whose start time \<^verbatim>\<open>==\<close> finds equal to
  the parsed one, each once, in the order of the list: one call per matching record,
  not one call per row. The records that \<^verbatim>\<open>==\<close> finds equal are those that start at
  the parsed instant, unless their local start time is in a repeated hour.
\<close>

theorem matching_records_all_cancelled:
  assumes "target_start target_contact = Inr target"
    and "\<forall>c\<in>set responce. datetime_eq gs (startTime c) target \<longrightarrow>
             (\<exists>n. get_mission_profile_name gs (missionProfileArn c) = Inr n)
           \<and> (\<exists>r. cancel_contact_call gs (contactId c) = Inr r)"
  shows "cancel_row gs responce target_contact
           = (map contactId (filter (\<lambda>c. datetime_eq gs (startTime c) target) responce), None)"
  using assms by (simp add: cancel_row_def cancel_matching_all)

theorem matching_records_all_cancelled_witness:
  "target_start ohio_row = Inr (utc 2024 1 1 9 0 0)
   \<and> datetime_eq example_client (startTime ohio_contact) (utc 2024 1 1 9 0 0)
   \<and> datetime_eq example_client (startTime oregon_contact) (utc 2024 1 1 9 0 0)
   \<and> get_mission_profile_name example_client (missionProfileArn ohio_contact) = Inr ''profile''
   \<and> get_mission_profile_name example_client (missionProfileArn oregon_contact) = Inr ''profile''
   \<and> cancel_contact_call example_client (contactId ohio_contact) = Inr ''contact-ohio''
   \<and> cancel_contact_call example_client (contactId oregon_contact) = Inr ''contact-oregon''
   \<and> cancel_row example_client [ohio_contact, oregon_contact] ohio_row
       = ([contactId ohio_contact, contactId oregon_contact], None)"
  using matching_records_all_cancelled
    [of ohio_row "utc 2024 1 1 9 0 0" "[ohio_contact, oregon_contact]" example_client]
  by (simp add: example_targets example_instants ohio_contact_def oregon_contact_def
      example_profile example_cancel_call datetime_eq_def example_local_zone)

text \<open>
  Outside a repeated hour the records cancelled are exactly those that start at the
  parsed instant.
\<close>

lemma matching_records_outside_repeated_hour:
  assumes "target_start target_contact = Inr target"
    and "\<not> repeated_hour gs target"
    and "\<forall>c\<in>set responce. startTime c = target \<longrightarrow>
             (\<exists>n. get_mission_profile_name gs (missionProfileArn c) = Inr n)
           \<and> (\<exists>r. cancel_contact_call gs (contactId c) = Inr r)"
  shows "cancel_row gs responce target_contact
           = (map contactId (filter (\<lambda>c. startTime c = target) responce), None)"
proof -
  have e: "\<And>c. datetime_eq gs (startTime c) target = (startTime c = target)"
    using assms(2) by (rule datetime_eq_outside_repeated_hour)
  from assms(1,3) show ?thesis
    by (simp add: cancel_row_def cancel_matching_all e)
qed

text \<open>
  Inside one nothing is cancelled: on a machine in New York the row of
  \<open>november_contact\<close>, ticked, parses to the very instant at which the contact
  starts, \<^verbatim>\<open>==\<close> answers \<^verbatim>\<open>False\<close>, and no call is made.
\<close>

lemma november_instants:
  "utc 2024 11 3 5 0 0 = 1730610000000000" "utc 2024 11 3 7 0 0 = 1730617200000000"
  "utc 2024 11 3 5 30 0 = 1730611800000000" "utc 2024 11 3 5 40 0 = 1730612400000000"
  by (simp_all add: utc_def days_from_civil_def usec_per_day_def usec_per_second_def)

lemma november_row_printed:
  "contact_rows new_york_client (\<lambda>x. ''45.0'') [november_contact] = Inr [november_row]"
  by code_simp

lemma november_row_fields:
  "item (split ''--'' november_row) 0 = Inr ''2024-11-03  ''"
  "item (split ''--'' november_row) (Suc 0) = Inr ''  05:30:00+00:00  ''"
  "strip ''2024-11-03  '' = ''2024-11-03''"
  "strip ''  05:30:00+00:00  '' = ''05:30:00+00:00''"
  "strptime_YmdHMSz ''2024-11-03 05:30:00+00:00'' = Inr 1730611800000000"
  by code_simp+

lemma repeated_hour_contact_not_cancelled:
  "target_start november_row = Inr (startTime november_contact)
   \<and> cancel_row new_york_client [november_contact] november_row = ([], None)"
  by (simp add: target_start_def cancel_row_def and_then_def november_row_fields
      november_contact_def november_instants datetime_eq_def new_york_client_def)

lemma example_cancel_contact:
  "cancel_contact example_client (\<lambda>x. ''45.0'') [''Ohio 1'', ''Oregon 1''] [ohio_row] True
     = ([''contact-ohio'', ''contact-oregon''], None)"
  by code_simp

text \<open>
  C10. Every identifier that \<^verbatim>\<open>cancel_contact\<close> hands to
  \<^verbatim>\<open>gs_client.cancel_contact\<close> is the \<^verbatim>\<open>contactId\<close> of a record that
  \<^verbatim>\<open>list_contacts\<close> answered for one of the selected ground stations under the status
  filter \<^verbatim>\<open>["SCHEDULED"]\<close>, whatever rows were ticked and whatever the client answers.
\<close>

theorem cancelled_ids_fetched_as_scheduled:
  "\<forall>cid\<in>set (fst (cancel_contact gs str_float stations rows confirmation)).
     \<exists>g\<in>set stations. \<exists>cs. list_contacts gs g [''SCHEDULED''] = Inr cs
                              \<and> cid \<in> contactId ` set cs"
proof
  fix cid
  assume "cid \<in> set (fst (cancel_contact gs str_float stations rows confirmation))"
  then obtain rws responce
    where v: "view_contact gs str_float stations True = Inr (rws, responce)"
      and m: "cid \<in> set (fst (cancel_rows gs responce rows))"
    by (auto simp: cancel_contact_def split: sum.splits prod.splits if_splits option.splits)
  from v have g: "get_contacts gs [''SCHEDULED''] stations = Inr responce"
    by (auto simp: view_contact_def and_then_def view_statuses_def split: sum.splits)
  from m cancel_rows_subset[of gs responce rows]
  obtain c where c: "c \<in> set responce" "cid = contactId c"
    by auto
  from get_contacts_sets[OF g c(1)] c(2)
  show "\<exists>g\<in>set stations. \<exists>cs. list_contacts gs g [''SCHEDULED''] = Inr cs
                                \<and> cid \<in> contactId ` set cs"
    by blast
qed

theorem cancelled_ids_fetched_as_scheduled_witness:
  "fst (cancel_contact example_client (\<lambda>x. ''45.0'') [''Ohio 1'', ''Oregon 1''] [ohio_row] True)
     = [''contact-ohio'', ''contact-oregon'']
   \<and> (\<exists>g\<in>set [''Ohio 1'', ''Oregon 1'']. \<exists>cs.
         list_contacts example_client g [''SCHEDULED''] = Inr cs
         \<and> ''contact-oregon'' \<in> contactId ` set cs)"
proof -
  have e: "fst (cancel_contact example_client (\<lambda>x. ''45.0'') [''Ohio 1'', ''Oregon 1'']
                  [ohio_row] True) = [''contact-ohio'', ''contact-oregon'']"
    by (simp add: example_cancel_contact)
  from cancelled_ids_fetched_as_scheduled
    [of example_client "\<lambda>x. ''45.0''" "[''Ohio 1'', ''Oregon 1'']" "[ohio_row]" True]
  have "\<forall>cid\<in>set [''contact-ohio'', ''contact-oregon''].
          \<exists>g\<in>set [''Ohio 1'', ''Oregon 1'']. \<exists>cs.
            list_contacts example_client g [''SCHEDULED''] = Inr cs
            \<and> cid \<in> contactId ` set cs"
    unfolding e .
  then have "\<exists>g\<in>set [''Ohio 1'', ''Oregon 1'']. \<exists>cs.
            list_contacts example_client g [''SCHEDULED''] = Inr cs
            \<and> ''contact-oregon'' \<in> contactId ` set cs"
    by simp
  with e show ?thesis by blast
qed

end
